theory Spec2Isabelle
  imports Complex_Main
begin

section \<open>Property reads on object literals\<close>

text \<open>
  The guards and the export service keep their tables as object literals of type
  \<^verbatim>\<open>Record<string, number>\<close> and read them with \<^verbatim>\<open>table[key] || fallback\<close>.
  A read of an object literal finds the literal's own keys first, then the members every
  object inherits from \<^verbatim>\<open>Object.prototype\<close> (functions, and the prototype object
  itself under \<^verbatim>\<open>__proto__\<close>), and is \<^verbatim>\<open>undefined\<close> otherwise. The inherited
  members are truthy, so \<^verbatim>\<open>||\<close> keeps them.
\<close>

datatype jsprop = Own nat | Inherited string | Undefined

definition objectPrototypeKeys :: "string list" where
  "objectPrototypeKeys =
     [''constructor'', ''__defineGetter__'', ''__defineSetter__'', ''hasOwnProperty'',
      ''__lookupGetter__'', ''__lookupSetter__'', ''isPrototypeOf'', ''propertyIsEnumerable'',
      ''toString'', ''valueOf'', ''__proto__'', ''toLocaleString'']"

definition getProp :: "(string \<times> nat) list \<Rightarrow> string \<Rightarrow> jsprop" where
  "getProp obj k =
     (case map_of obj k of
        Some n \<Rightarrow> Own n
      | None \<Rightarrow> if k \<in> set objectPrototypeKeys then Inherited k else Undefined)"

text \<open>\<^verbatim>\<open>v || d\<close> for a numeric fallback \<open>d\<close>: \<^verbatim>\<open>undefined\<close> and \<open>0\<close> are falsy.\<close>

fun orDefault :: "jsprop \<Rightarrow> nat \<Rightarrow> jsprop" where
  "orDefault (Own n) d = (if n = 0 then Own d else Own n)"
| "orDefault (Inherited k) d = Inherited k"
| "orDefault Undefined d = Own d"

text \<open>
  \<^verbatim>\<open>a >= b\<close>. Two numbers compare numerically. A function or object against a number
  is converted to a string that is no numeral, hence to NaN, and the comparison is false;
  so is a comparison with \<^verbatim>\<open>undefined\<close>. Two inherited members compare by their
  string conversions: the same member gives true, and for two different members the
  outcome depends on the engine's rendering of native functions, which is not modelled
  (\<open>None\<close>).
\<close>

fun geq :: "jsprop \<Rightarrow> jsprop \<Rightarrow> bool option" where
  "geq (Own a) (Own b) = Some (b \<le> a)"
| "geq (Inherited k) (Inherited k') = (if k = k' then Some True else None)"
| "geq _ _ = Some False"

section \<open>Users, requests and the two guards\<close>

text \<open>The tiers of \<^verbatim>\<open>export type Tier\<close>, and the strings that denote them.\<close>

datatype Tier = STARTER | PRO | ENTERPRISE | GOV | CHAMBER

fun tierString :: "Tier \<Rightarrow> string" where
  "tierString STARTER = ''STARTER''"
| "tierString PRO = ''PRO''"
| "tierString ENTERPRISE = ''ENTERPRISE''"
| "tierString GOV = ''GOV''"
| "tierString CHAMBER = ''CHAMBER''"

text \<open>
  The object a guard stores under \<^verbatim>\<open>request.user\<close>. Types are erased at run time, so
  the tier may be missing; the request carries the \<^verbatim>\<open>authorization\<close> header, if any.
\<close>

record authUser =
  userId :: string
  organizationId :: string
  tier :: "string option"
  role :: string

record request =
  authorization :: "string option"
  user :: "authUser option"

definition tierHierarchy :: "(string \<times> nat) list" where
  "tierHierarchy =
     [(''STARTER'', 1), (''PRO'', 2), (''ENTERPRISE'', 3), (''GOV'', 4), (''CHAMBER'', 3)]"

text \<open>
  \<^verbatim>\<open>TierGuard.canActivate\<close>. The first argument is the handler's \<^verbatim>\<open>requiredTier\<close>
  metadata (\<open>None\<close> when the handler has no \<^verbatim>\<open>@RequiresTier\<close>); an absent and an empty
  string are both falsy.
\<close>

definition TierGuard_canActivate :: "string option \<Rightarrow> request \<Rightarrow> bool option" where
  "TierGuard_canActivate requiredTier req =
     (case requiredTier of
        None \<Rightarrow> Some True
      | Some rt \<Rightarrow>
          if rt = [] then Some True
          else
            let userTier = (case Option.bind (user req) tier of
                              None \<Rightarrow> ''STARTER''
                            | Some t \<Rightarrow> if t = [] then ''STARTER'' else t);
                requiredLevel = orDefault (getProp tierHierarchy rt) 0;
                userLevel = orDefault (getProp tierHierarchy userTier) 0
            in geq userLevel requiredLevel)"

text \<open>The ranking of the tier table as the specification fixes it.\<close>

fun specRank :: "Tier \<Rightarrow> nat" where
  "specRank STARTER = 1"
| "specRank PRO = 2"
| "specRank ENTERPRISE = 3"
| "specRank CHAMBER = 3"
| "specRank GOV = 4"

text \<open>A user of a given tier string, and a request that carries such a user.\<close>

definition userOfTier :: "string \<Rightarrow> authUser" where
  "userOfTier t =
     \<lparr>userId = ''user-123'', organizationId = ''org-456'', tier = Some t, role = ''ANALYST''\<rparr>"

definition callerOfTier :: "string \<Rightarrow> request" where
  "callerOfTier t = \<lparr>authorization = Some ''Bearer token'', user = Some (userOfTier t)\<rparr>"

definition recognisedTiers :: "string list" where
  "recognisedTiers = [''STARTER'', ''PRO'', ''ENTERPRISE'', ''CHAMBER'', ''GOV'']"

section \<open>Numbers\<close>

text \<open>
  A \<^verbatim>\<open>number\<close> is an IEEE 754 double: NaN, an infinity or a zero with its sign
  (\<open>True\<close> is negative), or a finite non-zero value, kept as the rational it denotes.
  Every arithmetic operation computes the exact result and rounds it to the nearest
  double, ties to the even mantissa.
\<close>

datatype number = NaN | Inf bool | Zero bool | Fin rat

definition pow2 :: "int \<Rightarrow> rat" where
  "pow2 e = (if 0 \<le> e then of_int (2 ^ nat e) else 1 / of_int (2 ^ nat (- e)))"

definition roundEven :: "rat \<Rightarrow> int" where
  "roundEven q =
     (let f = \<lfloor>q\<rfloor>; d = q - of_int f
      in if d < 1 / 2 then f else if 1 / 2 < d then f + 1 else if even f then f else f + 1)"

text \<open>The number of binary digits of a positive integer.\<close>

function bits :: "int \<Rightarrow> nat" where
  "bits n = (if n \<le> 0 then 0 else Suc (bits (n div 2)))"
  by pat_completeness auto
termination
  by (relation "measure nat") auto

declare bits.simps [simp del]

text \<open>The binary exponent of a positive rational \<open>a\<close>: \<open>2 ^ e \<le> a < 2 ^ (e + 1)\<close>.\<close>

definition binExp :: "rat \<Rightarrow> int" where
  "binExp a =
     (let (n, d) = quotient_of a; k = int (bits n) - int (bits d)
      in if pow2 k \<le> a then k else k - 1)"

text \<open>
  Rounding of an exact non-zero result to a double: 53 significant bits, exponents from
  \<open>-1022\<close> (below it the spacing stays \<open>2 ^ -1074\<close>, the subnormal range) to \<open>1023\<close>
  (above it the result overflows to an infinity). A result that rounds to nothing is a
  zero with the sign of the exact result.
\<close>

definition round64 :: "rat \<Rightarrow> number" where
  "round64 q =
     (let a = \<bar>q\<bar>; e = max (binExp a) (- 1022); u = pow2 (e - 52);
          m = roundEven (a / u)
      in if m = 0 then Zero (q < 0)
         else if 1023 < e \<or> (e = 1023 \<and> m = 2 ^ 53) then Inf (q < 0)
         else Fin (if q < 0 then - (of_int m * u) else of_int m * u))"

fun negative :: "number \<Rightarrow> bool" where
  "negative NaN = False"
| "negative (Inf s) = s"
| "negative (Zero s) = s"
| "negative (Fin q) = (q < 0)"

text \<open>\<^verbatim>\<open>x * y\<close>\<close>

fun fmul :: "number \<Rightarrow> number \<Rightarrow> number" where
  "fmul NaN y = NaN"
| "fmul x NaN = NaN"
| "fmul (Inf s) (Zero t) = NaN"
| "fmul (Zero s) (Inf t) = NaN"
| "fmul (Fin a) (Fin b) = round64 (a * b)"
| "fmul (Inf s) y = Inf (s \<noteq> negative y)"
| "fmul x (Inf t) = Inf (negative x \<noteq> t)"
| "fmul (Zero s) y = Zero (s \<noteq> negative y)"
| "fmul x (Zero t) = Zero (negative x \<noteq> t)"

text \<open>\<^verbatim>\<open>x / y\<close>\<close>

fun fdiv :: "number \<Rightarrow> number \<Rightarrow> number" where
  "fdiv NaN y = NaN"
| "fdiv x NaN = NaN"
| "fdiv (Inf s) (Inf t) = NaN"
| "fdiv (Zero s) (Zero t) = NaN"
| "fdiv (Fin a) (Fin b) = round64 (a / b)"
| "fdiv (Inf s) y = Inf (s \<noteq> negative y)"
| "fdiv x (Inf t) = Zero (negative x \<noteq> t)"
| "fdiv (Zero s) y = Zero (s \<noteq> negative y)"
| "fdiv x (Zero t) = Inf (negative x \<noteq> t)"

text \<open>\<^verbatim>\<open>x + y\<close>: an exact sum of zero is \<open>+0\<close>, except that \<open>-0 + -0\<close> is \<open>-0\<close>.\<close>

fun fadd :: "number \<Rightarrow> number \<Rightarrow> number" where
  "fadd NaN y = NaN"
| "fadd x NaN = NaN"
| "fadd (Inf s) (Inf t) = (if s = t then Inf s else NaN)"
| "fadd (Inf s) y = Inf s"
| "fadd x (Inf t) = Inf t"
| "fadd (Zero s) (Zero t) = Zero (s \<and> t)"
| "fadd (Zero s) (Fin b) = Fin b"
| "fadd (Fin a) (Zero t) = Fin a"
| "fadd (Fin a) (Fin b) = (if a + b = 0 then Zero False else round64 (a + b))"

text \<open>\<^verbatim>\<open>Math.ceil(x)\<close>: a value in \<open>(-1, 0)\<close> goes to \<open>-0\<close>.\<close>

fun fceil :: "number \<Rightarrow> number" where
  "fceil (Fin q) = (if \<lceil>q\<rceil> = 0 then Zero (q < 0) else Fin (of_int \<lceil>q\<rceil>))"
| "fceil x = x"

text \<open>\<^verbatim>\<open>x === y\<close> on numbers: NaN equals nothing, the two zeros are equal.\<close>

fun strictEq :: "number \<Rightarrow> number \<Rightarrow> bool" where
  "strictEq NaN y = False"
| "strictEq x NaN = False"
| "strictEq (Zero s) (Zero t) = True"
| "strictEq x y = (x = y)"

text \<open>\<^verbatim>\<open>x > y\<close> on numbers: false whenever a side is NaN.\<close>

fun magnitude :: "number \<Rightarrow> rat" where
  "magnitude (Fin q) = q"
| "magnitude x = 0"

fun fgt :: "number \<Rightarrow> number \<Rightarrow> bool" where
  "fgt NaN y = False"
| "fgt x NaN = False"
| "fgt (Inf s) (Inf t) = (\<not> s \<and> t)"
| "fgt (Inf s) y = (\<not> s)"
| "fgt x (Inf t) = t"
| "fgt x y = (magnitude y < magnitude x)"

text \<open>\<^verbatim>\<open>x || d\<close> for an optional number: \<^verbatim>\<open>undefined\<close>, NaN and the zeros are falsy.\<close>

fun falsy :: "number \<Rightarrow> bool" where
  "falsy NaN = True"
| "falsy (Zero s) = True"
| "falsy (Fin q) = (q = 0)"
| "falsy (Inf s) = False"

definition orNumber :: "number option \<Rightarrow> number \<Rightarrow> number" where
  "orNumber x d = (case x of None \<Rightarrow> d | Some n \<Rightarrow> if falsy n then d else n)"

section \<open>The authentication guard and the guard chain\<close>

text \<open>
  \<^verbatim>\<open>JwtAuthGuard.canActivate\<close> writes \<^verbatim>\<open>request.user\<close> and returns its verdict;
  the model returns the verdict with the updated request. \<^verbatim>\<open>!authHeader\<close> holds for a
  missing and for an empty header.
\<close>

definition JwtAuthGuard_canActivate :: "request \<Rightarrow> bool \<times> request" where
  "JwtAuthGuard_canActivate req =
     (if (case authorization req of None \<Rightarrow> True | Some h \<Rightarrow> h = [])
      then (True, req\<lparr>user := Some \<lparr>userId = ''dev-user'', organizationId = ''dev-org'',
                                       tier = Some ''PRO'', role = ''ADMIN''\<rparr>\<rparr>)
      else (True, req\<lparr>user := Some \<lparr>userId = ''user-123'', organizationId = ''org-456'',
                                       tier = Some ''PRO'', role = ''ANALYST''\<rparr>\<rparr>))"

text \<open>
  Every controller is declared \<^verbatim>\<open>@UseGuards(JwtAuthGuard, TierGuard)\<close>: the guards run
  in this order on the same request object, and the handler runs only if each returned
  true. The result is the verdict and the request as the handler would see it.
\<close>

definition useGuards :: "string option \<Rightarrow> request \<Rightarrow> bool option \<times> request" where
  "useGuards requiredTier req =
     (let (ok, req') = JwtAuthGuard_canActivate req
      in if ok then (TierGuard_canActivate requiredTier req', req') else (Some False, req'))"

section \<open>Tariffs service\<close>

typedecl preferentialRate
typedecl tradeMeasure

record route =
  hsCode :: string
  origin :: string
  destination :: string

record tariffQuote = route +
  mfnRate :: number
  preferentialRates :: "preferentialRate list"
  tradeMeasures :: "tradeMeasure list"
  effectiveTotalRate :: number

record landedCostEstimate = route +
  cifValue :: number
  dutyRate :: number
  dutyAmount :: number
  vatRate :: number
  vatAmount :: number
  totalLandedCost :: number
  disclaimer :: string

text \<open>\<^verbatim>\<open>TariffsService.getDutyRates\<close>: no statement of it throws.\<close>

definition getDutyRates :: "string \<Rightarrow> string \<Rightarrow> string \<Rightarrow> tariffQuote" where
  "getDutyRates hs orig dest =
     \<lparr>hsCode = hs, origin = orig, destination = dest,
      mfnRate = Zero False, preferentialRates = [], tradeMeasures = [],
      effectiveTotalRate = Zero False\<rparr>"

text \<open>The literal \<^verbatim>\<open>0.2\<close> is the double nearest to one fifth.\<close>

definition literal_0_2 :: number where
  "literal_0_2 = round64 (1 / 5)"

text \<open>
  \<^verbatim>\<open>TariffsService.calculateLandedCost\<close>, in two steps: the statements that follow
  \<^verbatim>\<open>const rates = await this.getDutyRates(...)\<close>, as a function of \<open>rates\<close>, and the
  method itself, which binds \<open>rates\<close> to the quote of \<open>getDutyRates\<close>.
\<close>

definition landedCostFrom ::
  "tariffQuote \<Rightarrow> string \<Rightarrow> string \<Rightarrow> string \<Rightarrow> number \<Rightarrow> landedCostEstimate" where
  "landedCostFrom rates hs orig dest cif =
     (let dutyAmount' = fmul cif (fdiv (effectiveTotalRate rates) (Fin 100));
          vatRate' = literal_0_2;
          vatAmount' = fmul (fadd cif dutyAmount') vatRate'
      in \<lparr>hsCode = hs, origin = orig, destination = dest,
          cifValue = cif,
          dutyRate = effectiveTotalRate rates,
          dutyAmount = dutyAmount',
          vatRate = fmul vatRate' (Fin 100),
          vatAmount = vatAmount',
          totalLandedCost = fadd (fadd cif dutyAmount') vatAmount',
          disclaimer =
            ''This is an estimate. Actual costs may vary based on specific circumstances.''\<rparr>)"

definition calculateLandedCost ::
  "string \<Rightarrow> string \<Rightarrow> string \<Rightarrow> number \<Rightarrow> landedCostEstimate" where
  "calculateLandedCost hs orig dest cif =
     landedCostFrom (getDutyRates hs orig dest) hs orig dest cif"

section \<open>Shipments service\<close>

datatype TransportMode = SEA | AIR | RAIL | ROAD | MULTIMODAL

text \<open>The sort fields \<^verbatim>\<open>'shipperName'\<close> and \<^verbatim>\<open>'consigneeName'\<close> carry a suffix here,
  since the request body has members of these names.\<close>

datatype ShipmentSortField =
  shipmentDate | declaredValueUsd | quantity | unitPriceUsd | shipperNameField | consigneeNameField

datatype SortOrder = asc | desc

text \<open>\<^verbatim>\<open>SearchShipmentsDto\<close>: every member is optional.\<close>

record searchShipmentsDto =
  hsCode :: "string option"
  productKeyword :: "string option"
  shipperName :: "string option"
  consigneeName :: "string option"
  shipperId :: "string option"
  consigneeId :: "string option"
  originCountries :: "string list option"
  destinationCountries :: "string list option"
  portsOfLoading :: "string list option"
  portsOfDischarge :: "string list option"
  dateFrom :: "string option"
  dateTo :: "string option"
  minQuantity :: "number option"
  maxQuantity :: "number option"
  minValueUsd :: "number option"
  maxValueUsd :: "number option"
  minUnitPrice :: "number option"
  maxUnitPrice :: "number option"
  transportMode :: "TransportMode option"
  carrier :: "string option"
  page :: "number option"
  pageSize :: "number option"
  sortBy :: "ShipmentSortField option"
  sortOrder :: "SortOrder option"
  includeAggregations :: "bool option"
  excludeCompanyIds :: "string list option"

typedecl shipment

record countAggregation =
  key :: string
  label :: string
  count :: number

record rangeAggregation =
  min_r :: number
  max_r :: number
  avg_r :: number

record aggregations =
  byOriginCountry :: "countAggregation list"
  byDestinationCountry :: "countAggregation list"
  byHsChapter :: "countAggregation list"
  byTransportMode :: "countAggregation list"
  byCarrier :: "countAggregation list"
  valueRange :: rangeAggregation
  quantityRange :: rangeAggregation

record shipmentSearchResult =
  items :: "shipment list"
  total :: number
  page :: number
  pageSize :: number
  totalPages :: number
  aggregations :: aggregations

text \<open>\<^verbatim>\<open>ShipmentsService.search\<close>\<close>

definition search :: "searchShipmentsDto \<Rightarrow> authUser \<Rightarrow> shipmentSearchResult" where
  "search searchDto usr =
     \<lparr>items = [],
      total = Zero False,
      page = orNumber (searchShipmentsDto.page searchDto) (Fin 1),
      pageSize = orNumber (searchShipmentsDto.pageSize searchDto) (Fin 20),
      totalPages = Zero False,
      aggregations =
        \<lparr>byOriginCountry = [], byDestinationCountry = [], byHsChapter = [],
         byTransportMode = [], byCarrier = [],
         valueRange = \<lparr>min_r = Zero False, max_r = Zero False, avg_r = Zero False\<rparr>,
         quantityRange = \<lparr>min_r = Zero False, max_r = Zero False, avg_r = Zero False\<rparr>\<rparr>\<rparr>"

text \<open>The members of the aggregations object that are facet buckets (\<^verbatim>\<open>CountAggregation[]\<close>),
  and those that are range summaries (\<^verbatim>\<open>RangeAggregation\<close>), in declaration order.\<close>

text \<open>The request body with no member set.\<close>

definition emptyDto :: searchShipmentsDto where
  "emptyDto =
     \<lparr>hsCode = None, productKeyword = None, shipperName = None, consigneeName = None,
      shipperId = None, consigneeId = None, originCountries = None,
      destinationCountries = None, portsOfLoading = None, portsOfDischarge = None,
      dateFrom = None, dateTo = None, minQuantity = None, maxQuantity = None,
      minValueUsd = None, maxValueUsd = None, minUnitPrice = None, maxUnitPrice = None,
      transportMode = None, carrier = None, page = None, pageSize = None, sortBy = None,
      sortOrder = None, includeAggregations = None, excludeCompanyIds = None\<rparr>"

definition facetBuckets :: "aggregations \<Rightarrow> countAggregation list list" where
  "facetBuckets a =
     [byOriginCountry a, byDestinationCountry a, byHsChapter a, byTransportMode a, byCarrier a]"

definition rangeSummaries :: "aggregations \<Rightarrow> rangeAggregation list" where
  "rangeSummaries a = [valueRange a, quantityRange a]"

definition zeroRange :: rangeAggregation where
  "zeroRange = \<lparr>min_r = Zero False, max_r = Zero False, avg_r = Zero False\<rparr>"

text \<open>A request body that sets two filters and leaves the paging members unset.\<close>

definition filteredDto :: searchShipmentsDto where
  "filteredDto =
     emptyDto\<lparr>searchShipmentsDto.hsCode := Some ''7308*'', minValueUsd := Some (Fin 1000)\<rparr>"

text \<open>Decimal rendering of a non-negative integer, as a template literal prints it.\<close>

definition digitChar :: "nat \<Rightarrow> char" where
  "digitChar d = ''0123456789'' ! d"

fun showNat :: "nat \<Rightarrow> string" where
  "showNat n = (if n < 10 then [digitChar n] else showNat (n div 10) @ [digitChar (n mod 10)])"

declare showNat.simps [simp del]

datatype ExportFormat = csv | xlsx

record exportResponse =
  message :: string
  format :: ExportFormat

definition rowLimits :: "(string \<times> nat) list" where
  "rowLimits = [(''STARTER'', 500), (''PRO'', 5000), (''ENTERPRISE'', 50000), (''GOV'', 100000)]"

text \<open>The property key that a value denotes: \<^verbatim>\<open>undefined\<close> reads the key \<^verbatim>\<open>"undefined"\<close>.\<close>

definition propertyKey :: "string option \<Rightarrow> string" where
  "propertyKey k = (case k of None \<Rightarrow> ''undefined'' | Some t \<Rightarrow> t)"

text \<open>The local \<^verbatim>\<open>limit\<close> of \<^verbatim>\<open>export\<close>: \<^verbatim>\<open>rowLimits[user.tier] || 500\<close>.\<close>

definition rowLimit :: "authUser \<Rightarrow> jsprop" where
  "rowLimit usr = orDefault (getProp rowLimits (propertyKey (tier usr))) 500"

text \<open>
  \<^verbatim>\<open>ShipmentsService.export\<close>. The response is the message and the format, nothing else.
  When the tier string names an inherited member, the limit is that member and the
  message holds the engine's rendering of it, which is not modelled (\<open>None\<close>).
\<close>

definition export :: "searchShipmentsDto \<Rightarrow> ExportFormat \<Rightarrow> authUser \<Rightarrow> exportResponse option" where
  "export searchDto fmt usr =
     (case rowLimit usr of
        Own limit \<Rightarrow>
          Some \<lparr>message = ''Export initiated with limit of '' @ showNat limit @ '' rows'',
                format = fmt\<rparr>
      | _ \<Rightarrow> None)"

section \<open>Compliance service\<close>

datatype CheckStatus = CLEAR | REVIEW_REQUIRED | MATCH

typedecl sanctionsHit

record runCheckDto =
  companyId :: string
  companyName :: "string option"

record checkResult =
  check_id :: string
  companyId :: string
  companyName :: string
  status :: CheckStatus
  checkedAt :: string
  checkedBy :: string
  hits :: "sanctionsHit list"
  listsChecked :: "string list"
  creditsRemaining :: number

record creditsBalance =
  organizationId :: string
  remaining :: number
  total :: number
  resetsAt :: string

text \<open>
  \<^verbatim>\<open>ComplianceService.runCheck\<close>. The class has no fields: the result depends on the
  arguments and on the clock only, which the model takes as two more arguments:
  \<open>now\<close>, the reading of \<^verbatim>\<open>Date.now()\<close> in milliseconds, and \<open>isoNow\<close>, the
  string \<^verbatim>\<open>new Date().toISOString()\<close>.
\<close>

definition runCheck :: "nat \<Rightarrow> string \<Rightarrow> runCheckDto \<Rightarrow> authUser \<Rightarrow> checkResult" where
  "runCheck now isoNow checkDto usr =
     \<lparr>check_id = ''check_'' @ showNat now,
      companyId = runCheckDto.companyId checkDto,
      companyName = (case runCheckDto.companyName checkDto of
                       None \<Rightarrow> ''Unknown''
                     | Some n \<Rightarrow> if n = [] then ''Unknown'' else n),
      status = CLEAR,
      checkedAt = isoNow,
      checkedBy = userId usr,
      hits = [],
      listsChecked = [''OFAC_SDN'', ''EU_CONSOLIDATED'', ''UN_SC'', ''UK_SANCTIONS''],
      creditsRemaining = Fin 100\<rparr>"

text \<open>
  \<^verbatim>\<open>ComplianceService.getCreditsBalance\<close>; \<open>isoReset\<close> is the string
  \<^verbatim>\<open>new Date(Date.now() + 30 * 24 * 60 * 60 * 1000).toISOString()\<close>.
\<close>

definition getCreditsBalance :: "string \<Rightarrow> string \<Rightarrow> creditsBalance" where
  "getCreditsBalance isoReset orgId =
     \<lparr>organizationId = orgId, remaining = Fin 100, total = Fin 100, resetsAt = isoReset\<rparr>"

text \<open>
  A single-check request as the service receives it: the clock readings, the body and
  the user. The service keeps no state between calls, so the responses to a batch of
  requests, in whatever order and overlap they are served, are the responses to each.
\<close>

type_synonym checkRequest = "nat \<times> string \<times> runCheckDto \<times> authUser"

definition handleChecks :: "checkRequest list \<Rightarrow> checkResult list" where
  "handleChecks reqs = map (\<lambda>(now, isoNow, checkDto, usr). runCheck now isoNow checkDto usr) reqs"

definition sampleCheck :: checkRequest where
  "sampleCheck =
     (1762041600000, ''2025-11-02T00:00:00.000Z'',
      \<lparr>runCheckDto.companyId = ''company-1'', runCheckDto.companyName = None\<rparr>, userOfTier ''STARTER'')"

text \<open>The row caps as the specification lists them.\<close>

fun specRowCap :: "Tier \<Rightarrow> nat" where
  "specRowCap STARTER = 500"
| "specRowCap PRO = 5000"
| "specRowCap ENTERPRISE = 50000"
| "specRowCap GOV = 100000"
| "specRowCap CHAMBER = 50000"

section \<open>Tier gating\<close>

lemma getProp_tier: "getProp tierHierarchy (tierString t) = Own (specRank t)"
  by (cases t) (simp_all add: getProp_def tierHierarchy_def)

lemma tierString_nonempty: "tierString t \<noteq> []"
  by (cases t) simp_all

lemma specRank_pos: "specRank t \<noteq> 0"
  by (cases t) simp_all

lemma canActivate_tiers:
  "Option.bind (user req) tier = Some (tierString u) \<Longrightarrow>
     TierGuard_canActivate (Some (tierString r)) req = Some (specRank r \<le> specRank u)"
  by (simp add: TierGuard_canActivate_def getProp_tier tierString_nonempty specRank_pos)

lemma userTier_caller: "Option.bind (user (callerOfTier t)) tier = Some t"
  by (simp add: callerOfTier_def userOfTier_def)

text \<open>
  C1. With the ranks STARTER=1, PRO=2, ENTERPRISE=3, CHAMBER=3, GOV=4, the guard admits a
  caller of a recognised tier to an operation of a recognised required tier exactly when
  the caller's rank is at least the required rank. For an operation declared
  \<^verbatim>\<open>@RequiresTier('PRO')\<close> a STARTER caller is rejected and PRO, ENTERPRISE, CHAMBER and
  GOV callers are accepted.
\<close>

theorem C1_tier_gating:
  "Option.bind (user req) tier = Some (tierString u) \<Longrightarrow>
     TierGuard_canActivate (Some (tierString r)) req = Some (specRank r \<le> specRank u)
     \<and> TierGuard_canActivate (Some ''PRO'') req = Some (u \<noteq> STARTER)"
proof -
  assume a: "Option.bind (user req) tier = Some (tierString u)"
  have "TierGuard_canActivate (Some (tierString PRO)) req = Some (specRank PRO \<le> specRank u)"
    using a by (rule canActivate_tiers)
  moreover have "(specRank PRO \<le> specRank u) = (u \<noteq> STARTER)"
    by (cases u) simp_all
  ultimately show ?thesis
    using canActivate_tiers [OF a, of r] by simp
qed

theorem C1_witness:
  "Option.bind (user (callerOfTier ''STARTER'')) tier = Some (tierString STARTER)
   \<and> TierGuard_canActivate (Some ''PRO'') (callerOfTier ''STARTER'') = Some False
   \<and> TierGuard_canActivate (Some ''PRO'') (callerOfTier ''PRO'') = Some True
   \<and> TierGuard_canActivate (Some ''PRO'') (callerOfTier ''ENTERPRISE'') = Some True
   \<and> TierGuard_canActivate (Some ''PRO'') (callerOfTier ''CHAMBER'') = Some True
   \<and> TierGuard_canActivate (Some ''PRO'') (callerOfTier ''GOV'') = Some True
   \<and> TierGuard_canActivate (Some ''ENTERPRISE'') (callerOfTier ''CHAMBER'') = Some True
   \<and> TierGuard_canActivate (Some ''GOV'') (callerOfTier ''ENTERPRISE'') = Some False"
  using C1_tier_gating [of "callerOfTier ''STARTER''" STARTER PRO]
    C1_tier_gating [of "callerOfTier ''PRO''" PRO PRO]
    C1_tier_gating [of "callerOfTier ''ENTERPRISE''" ENTERPRISE PRO]
    C1_tier_gating [of "callerOfTier ''CHAMBER''" CHAMBER ENTERPRISE]
    C1_tier_gating [of "callerOfTier ''GOV''" GOV PRO]
    C1_tier_gating [of "callerOfTier ''ENTERPRISE''" ENTERPRISE GOV]
  by (simp add: userTier_caller)

lemma getProp_unrecognised:
  "t \<notin> set recognisedTiers \<Longrightarrow>
     getProp tierHierarchy t = (if t \<in> set objectPrototypeKeys then Inherited t else Undefined)"
  by (simp add: getProp_def tierHierarchy_def recognisedTiers_def)

text \<open>
  C2, as stated, fails: a required tier that is no recognised tier, such as
  \<^verbatim>\<open>'PLATINUM'\<close>, is looked up as \<^verbatim>\<open>undefined\<close>, defaulted to rank 0 by
  \<^verbatim>\<open>|| 0\<close>, and the comparison then admits a STARTER caller.
\<close>

theorem C2_counterexample:
  "''PLATINUM'' \<notin> set recognisedTiers
   \<and> TierGuard_canActivate (Some ''PLATINUM'') (callerOfTier ''STARTER'') = Some True"
  by (simp add: TierGuard_canActivate_def userTier_caller getProp_def tierHierarchy_def
      recognisedTiers_def objectPrototypeKeys_def)

text \<open>
  C2, amended. The guard fails closed on the caller's side: when the required tier is
  one of the five recognised tiers and the caller's tier is a non-empty string that is
  none of them, access is denied. On the operation's side it does not: a non-empty
  required tier that is neither recognised nor the name of an inherited member gets
  rank 0, and every caller whose tier is not the name of an inherited member is admitted.
  A caller with no tier, or with the empty string for it, is treated as a STARTER caller.
\<close>

theorem C2_fail_closed_on_caller_side:
  "(Option.bind (user req) tier = Some t \<and> t \<noteq> [] \<and> t \<notin> set recognisedTiers \<longrightarrow>
      TierGuard_canActivate (Some (tierString r)) req = Some False)
   \<and> (Option.bind (user req) tier = Some ut \<and> ut \<notin> set objectPrototypeKeys
        \<and> rt \<noteq> [] \<and> rt \<notin> set recognisedTiers \<and> rt \<notin> set objectPrototypeKeys \<longrightarrow>
      TierGuard_canActivate (Some rt) req = Some True)
   \<and> (Option.bind (user req) tier = None \<or> Option.bind (user req) tier = Some [] \<longrightarrow>
      TierGuard_canActivate rq req = TierGuard_canActivate rq (callerOfTier ''STARTER''))"
proof (intro conjI impI)
  assume "Option.bind (user req) tier = Some t \<and> t \<noteq> [] \<and> t \<notin> set recognisedTiers"
  then show "TierGuard_canActivate (Some (tierString r)) req = Some False"
    by (simp add: TierGuard_canActivate_def getProp_unrecognised getProp_tier
        tierString_nonempty specRank_pos)
next
  assume a: "Option.bind (user req) tier = Some ut \<and> ut \<notin> set objectPrototypeKeys
        \<and> rt \<noteq> [] \<and> rt \<notin> set recognisedTiers \<and> rt \<notin> set objectPrototypeKeys"
  have required: "orDefault (getProp tierHierarchy rt) 0 = Own 0"
    using a by (simp add: getProp_unrecognised)
  have "\<exists>n. orDefault (getProp tierHierarchy (if ut = [] then ''STARTER'' else ut)) 0 = Own n"
  proof (cases "ut = []")
    case True
    then show ?thesis by (simp add: getProp_def tierHierarchy_def)
  next
    case False
    show ?thesis
    proof (cases "map_of tierHierarchy ut")
      case None
      with False a show ?thesis by (simp add: getProp_def)
    next
      case (Some n)
      with False show ?thesis by (simp add: getProp_def)
    qed
  qed
  then obtain n where
    caller: "orDefault (getProp tierHierarchy (if ut = [] then ''STARTER'' else ut)) 0 = Own n"
    by blast
  show "TierGuard_canActivate (Some rt) req = Some True"
    using a required caller by (simp add: TierGuard_canActivate_def)
next
  assume "Option.bind (user req) tier = None \<or> Option.bind (user req) tier = Some []"
  then show "TierGuard_canActivate rq req = TierGuard_canActivate rq (callerOfTier ''STARTER'')"
    by (auto simp: TierGuard_canActivate_def userTier_caller split: option.splits)
qed

theorem C2_witness:
  "Option.bind (user (callerOfTier ''PLATINUM'')) tier = Some ''PLATINUM''
   \<and> ''PLATINUM'' \<noteq> [] \<and> ''PLATINUM'' \<notin> set recognisedTiers
   \<and> ''PLATINUM'' \<notin> set objectPrototypeKeys
   \<and> TierGuard_canActivate (Some ''PRO'') (callerOfTier ''PLATINUM'') = Some False
   \<and> Option.bind (user (callerOfTier ''GOV'')) tier = Some ''GOV''
   \<and> ''GOV'' \<notin> set objectPrototypeKeys
   \<and> TierGuard_canActivate (Some ''PLATINUM'') (callerOfTier ''GOV'') = Some True
   \<and> Option.bind (user \<lparr>authorization = None, user = None\<rparr>) tier = None
   \<and> TierGuard_canActivate (Some ''PRO'') \<lparr>authorization = None, user = None\<rparr>
       = TierGuard_canActivate (Some ''PRO'') (callerOfTier ''STARTER'')"
  using C2_fail_closed_on_caller_side [of "callerOfTier ''PLATINUM''" "''PLATINUM''" PRO]
    C2_fail_closed_on_caller_side [of "callerOfTier ''GOV''" _ _ "''GOV''" "''PLATINUM''"]
    C2_fail_closed_on_caller_side [of "\<lparr>authorization = None, user = None\<rparr>" _ _ _ _ "Some ''PRO''"]
  by (simp add: recognisedTiers_def objectPrototypeKeys_def userTier_caller)

section \<open>The authentication guard\<close>

text \<open>
  C9. The authentication guard returns true for every request. With no
  \<^verbatim>\<open>authorization\<close> header (or an empty one) it installs the user \<^verbatim>\<open>dev-user\<close>, with
  a header the user \<^verbatim>\<open>user-123\<close>, both of tier PRO; so the guard chain of an operation
  that requires STARTER or PRO admits every request.
\<close>

theorem C9_auth_guard_admits_all:
  "fst (JwtAuthGuard_canActivate req) = True
   \<and> Option.bind (user (snd (JwtAuthGuard_canActivate req))) tier = Some ''PRO''
   \<and> (authorization req = None \<or> authorization req = Some [] \<longrightarrow>
        user (snd (JwtAuthGuard_canActivate req))
          = Some \<lparr>userId = ''dev-user'', organizationId = ''dev-org'',
                  tier = Some ''PRO'', role = ''ADMIN''\<rparr>)
   \<and> (authorization req = Some h \<and> h \<noteq> [] \<longrightarrow>
        user (snd (JwtAuthGuard_canActivate req))
          = Some \<lparr>userId = ''user-123'', organizationId = ''org-456'',
                  tier = Some ''PRO'', role = ''ANALYST''\<rparr>)
   \<and> fst (useGuards (Some ''STARTER'') req) = Some True
   \<and> fst (useGuards (Some ''PRO'') req) = Some True"
  by (simp add: JwtAuthGuard_canActivate_def useGuards_def TierGuard_canActivate_def
      getProp_def tierHierarchy_def split: option.splits)

theorem C9_witness:
  "authorization \<lparr>authorization = None, user = None\<rparr> = None
   \<and> user (snd (JwtAuthGuard_canActivate \<lparr>authorization = None, user = None\<rparr>))
       = Some \<lparr>userId = ''dev-user'', organizationId = ''dev-org'',
               tier = Some ''PRO'', role = ''ADMIN''\<rparr>
   \<and> authorization \<lparr>authorization = Some ''Bearer x'', user = None\<rparr> = Some ''Bearer x''
   \<and> ''Bearer x'' \<noteq> []
   \<and> user (snd (JwtAuthGuard_canActivate \<lparr>authorization = Some ''Bearer x'', user = None\<rparr>))
       = Some \<lparr>userId = ''user-123'', organizationId = ''org-456'',
               tier = Some ''PRO'', role = ''ANALYST''\<rparr>
   \<and> fst (useGuards (Some ''PRO'') \<lparr>authorization = None, user = None\<rparr>) = Some True"
  using C9_auth_guard_admits_all [of "\<lparr>authorization = None, user = None\<rparr>"]
    C9_auth_guard_admits_all [of "\<lparr>authorization = Some ''Bearer x'', user = None\<rparr>" "''Bearer x''"]
  by simp

section \<open>Export row limits\<close>

lemma showNat_caps:
  "showNat 500 = ''500''" "showNat 5000 = ''5000''" "showNat 50000 = ''50000''"
  "showNat 100000 = ''100000''"
  by (simp_all add: showNat.simps digitChar_def)

lemma rowLimit_tier:
  "tier usr = Some (tierString t) \<Longrightarrow>
     rowLimit usr = Own (if t = CHAMBER then 500 else specRowCap t)"
  by (cases t) (simp_all add: rowLimit_def propertyKey_def getProp_def rowLimits_def
      objectPrototypeKeys_def)

text \<open>
  C3, as stated, fails. The table \<^verbatim>\<open>rowLimits\<close> has no CHAMBER entry, so a CHAMBER
  caller gets the fallback of 500 rows where the claim says 50,000; and the export of a
  STARTER caller answers with a message and the format only: it holds no rows and no
  truncation flag.
\<close>

theorem C3_counterexample:
  "rowLimit (userOfTier ''CHAMBER'') = Own 500 \<and> specRowCap CHAMBER = 50000
   \<and> export emptyDto csv (userOfTier ''CHAMBER'')
       = Some \<lparr>message = ''Export initiated with limit of 500 rows'', format = csv\<rparr>
   \<and> export emptyDto csv (userOfTier ''STARTER'')
       = Some \<lparr>message = ''Export initiated with limit of 500 rows'', format = csv\<rparr>"
  using rowLimit_tier [of "userOfTier ''CHAMBER''" CHAMBER]
    rowLimit_tier [of "userOfTier ''STARTER''" STARTER]
  by (simp add: export_def userOfTier_def showNat_caps)

text \<open>
  C3, amended. For a caller of tier STARTER, PRO, ENTERPRISE or GOV the row limit of an
  export is 500, 5,000, 50,000 or 100,000, and the response consists of the message
  \<^verbatim>\<open>Export initiated with limit of <limit> rows\<close> and the requested format: the export
  produces no rows and no truncation flag.
\<close>

theorem C3_export_row_limit:
  "tier usr = Some (tierString t) \<Longrightarrow> t \<noteq> CHAMBER \<Longrightarrow>
     rowLimit usr = Own (specRowCap t)
     \<and> export searchDto fmt usr
         = Some \<lparr>message = ''Export initiated with limit of '' @ showNat (specRowCap t) @ '' rows'',
                 format = fmt\<rparr>"
  by (simp add: export_def rowLimit_tier)

theorem C3_witness:
  "tier (userOfTier ''GOV'') = Some (tierString GOV) \<and> GOV \<noteq> CHAMBER
   \<and> rowLimit (userOfTier ''GOV'') = Own 100000
   \<and> export emptyDto xlsx (userOfTier ''GOV'')
       = Some \<lparr>message = ''Export initiated with limit of 100000 rows'', format = xlsx\<rparr>"
  using C3_export_row_limit [of "userOfTier ''GOV''" GOV emptyDto xlsx]
  by (simp add: userOfTier_def showNat_caps)

section \<open>Compliance checks and credits\<close>

lemma runCheck_fields:
  "status (runCheck now isoNow checkDto usr) = CLEAR"
  "creditsRemaining (runCheck now isoNow checkDto usr) = Fin 100"
  by (simp_all add: runCheck_def)

lemma handleChecks_status: "map status (handleChecks reqs) = replicate (length reqs) CLEAR"
  by (induction reqs) (auto simp: handleChecks_def runCheck_fields)

lemma handleChecks_credits:
  "map creditsRemaining (handleChecks reqs) = replicate (length reqs) (Fin 100)"
  by (induction reqs) (auto simp: handleChecks_def runCheck_fields)

text \<open>
  C5, as stated, fails. The reported balance is 100, yet 101 single-check requests all
  succeed; and of 10 requests none fails: each answers CLEAR and reports 100 credits
  remaining, so the balance never reaches 0.
\<close>

theorem C5_counterexample:
  "remaining (getCreditsBalance ''2025-12-02T00:00:00.000Z'' ''org-456'') = Fin 100
   \<and> map status (handleChecks (replicate 101 sampleCheck)) = replicate 101 CLEAR
   \<and> map status (handleChecks (replicate 10 sampleCheck)) = replicate 10 CLEAR
   \<and> map creditsRemaining (handleChecks (replicate 10 sampleCheck)) = replicate 10 (Fin 100)"
  by (simp add: getCreditsBalance_def handleChecks_status handleChecks_credits)

text \<open>
  C5, amended. The code reserves no credits: every single-check request of a batch,
  however many there are, is answered with status CLEAR and 100 credits remaining, and
  the balance of every organization reads 100 remaining of 100. No request fails for
  lack of credits.
\<close>

theorem C5_no_credit_reservation:
  "length (handleChecks reqs) = length reqs
   \<and> map status (handleChecks reqs) = replicate (length reqs) CLEAR
   \<and> map creditsRemaining (handleChecks reqs) = replicate (length reqs) (Fin 100)
   \<and> remaining (getCreditsBalance isoReset orgId) = Fin 100
   \<and> creditsBalance.total (getCreditsBalance isoReset orgId) = Fin 100"
  by (simp add: getCreditsBalance_def handleChecks_status handleChecks_credits)
    (simp add: handleChecks_def)

section \<open>Duty rates and landed cost\<close>

text \<open>
  C6, as stated, fails: for the two-digit code \<^verbatim>\<open>'12'\<close> the lookup does not fail but
  answers with a quote, and the quote has no member beyond the seven shown.
\<close>

theorem C6_counterexample:
  "length ''12'' = 2
   \<and> getDutyRates ''12'' ''CN'' ''DE'' =
       \<lparr>route.hsCode = ''12'', origin = ''CN'', destination = ''DE'',
        mfnRate = Zero False, preferentialRates = [], tradeMeasures = [],
        effectiveTotalRate = Zero False\<rparr>"
  by (simp add: getDutyRates_def)

text \<open>
  C6, amended. The duty-rate lookup never fails, whatever the code, well-formed or not:
  it answers with a quote that repeats the code, origin and destination, with MFN rate 0,
  no preferential rates, no trade measures and effective total rate 0. The quote carries
  no data-quality marker.
\<close>

theorem C6_lookup_never_fails:
  "route.hsCode (getDutyRates hs orig dest) = hs
   \<and> origin (getDutyRates hs orig dest) = orig
   \<and> destination (getDutyRates hs orig dest) = dest
   \<and> mfnRate (getDutyRates hs orig dest) = Zero False
   \<and> preferentialRates (getDutyRates hs orig dest) = []
   \<and> tradeMeasures (getDutyRates hs orig dest) = []
   \<and> effectiveTotalRate (getDutyRates hs orig dest) = Zero False"
  by (simp add: getDutyRates_def)

lemma fmul_rate: "fmul literal_0_2 (Fin 100) = Fin 20"
  by code_simp

lemma zero_rate: "fdiv (Zero False) (Fin 100) = Zero False"
  by simp








lemma fmul_neg: "fmul (Fin (- 100)) literal_0_2 = Fin (- 20)"
  by code_simp

lemma fadd_neg: "fadd (Fin (- 100)) (Fin (- 20)) = Fin (- 120)"
  by code_simp

lemma zero_duty: "q < 0 \<Longrightarrow> fmul (Fin q) (Zero False) = Zero True"
  by simp

lemma add_zero_duty: "fadd (Fin q) (Zero True) = Fin q"
  by simp

text \<open>
  C7, as stated, fails: for a CIF value of -100 the calculation raises no error and
  answers with an estimate, of total -120.
\<close>

theorem C7_counterexample:
  "calculateLandedCost ''730890'' ''CN'' ''DE'' (Fin (- 100)) =
     \<lparr>route.hsCode = ''730890'', origin = ''CN'', destination = ''DE'',
      cifValue = Fin (- 100), dutyRate = Zero False, dutyAmount = Zero True,
      vatRate = Fin 20, vatAmount = Fin (- 20), totalLandedCost = Fin (- 120),
      disclaimer =
        ''This is an estimate. Actual costs may vary based on specific circumstances.''\<rparr>"
  by (simp add: calculateLandedCost_def landedCostFrom_def getDutyRates_def Let_def
      zero_rate zero_duty add_zero_duty fmul_rate fmul_neg fadd_neg
      del: fmul.simps fdiv.simps fadd.simps)

text \<open>
  C7, amended. The landed-cost calculation does not validate the CIF value: for every
  negative finite CIF value it answers with an estimate that repeats the value, with
  duty rate 0, duty amount -0, VAT amount \<open>cif * 0.2\<close>, total \<open>cif + cif * 0.2\<close> and
  the disclaimer.
\<close>

theorem C7_negative_value_is_priced:
  "q < 0 \<Longrightarrow>
   calculateLandedCost hs orig dest (Fin q) =
     \<lparr>route.hsCode = hs, origin = orig, destination = dest,
      cifValue = Fin q, dutyRate = Zero False, dutyAmount = Zero True,
      vatRate = fmul literal_0_2 (Fin 100),
      vatAmount = fmul (Fin q) literal_0_2,
      totalLandedCost = fadd (Fin q) (fmul (Fin q) literal_0_2),
      disclaimer =
        ''This is an estimate. Actual costs may vary based on specific circumstances.''\<rparr>"
  by (simp add: calculateLandedCost_def landedCostFrom_def getDutyRates_def Let_def)

theorem C7_witness:
  "(- 100 :: rat) < 0
   \<and> cifValue (calculateLandedCost ''730890'' ''CN'' ''DE'' (Fin (- 100))) = Fin (- 100)
   \<and> totalLandedCost (calculateLandedCost ''730890'' ''CN'' ''DE'' (Fin (- 100))) = Fin (- 120)"
  using C7_negative_value_is_priced [of "- 100" "''730890''" "''CN''" "''DE''"]
  by (simp add: fmul_neg fadd_neg del: fmul.simps fdiv.simps fadd.simps)

section \<open>Shipment search\<close>

lemma orNumber_truthy: "\<not> falsy (orNumber x (Fin 20))"
  by (cases x) (simp_all add: orNumber_def)

lemma zero_div_truthy: "\<not> falsy n \<Longrightarrow> \<exists>s. fdiv (Zero False) n = Zero s"
  by (cases n) simp_all

lemma search_fields:
  "items (search searchDto usr) = []"
  "shipmentSearchResult.total (search searchDto usr) = Zero False"
  "totalPages (search searchDto usr) = Zero False"
  "shipmentSearchResult.page (search searchDto usr)
     = orNumber (searchShipmentsDto.page searchDto) (Fin 1)"
  "shipmentSearchResult.pageSize (search searchDto usr)
     = orNumber (searchShipmentsDto.pageSize searchDto) (Fin 20)"
  by (simp_all add: search_def)

lemma emptyDto_paging:
  "searchShipmentsDto.page emptyDto = None" "searchShipmentsDto.pageSize emptyDto = None"
  by (simp_all add: emptyDto_def)

lemma filteredDto_paging:
  "searchShipmentsDto.page filteredDto = None" "searchShipmentsDto.pageSize filteredDto = None"
  by (simp_all add: filteredDto_def emptyDto_paging)

lemma filteredDto_differs: "emptyDto \<noteq> filteredDto"
proof
  assume "emptyDto = filteredDto"
  then have "searchShipmentsDto.hsCode emptyDto = searchShipmentsDto.hsCode filteredDto"
    by simp
  then show False
    by (simp add: filteredDto_def emptyDto_def)
qed

text \<open>
  C8. In every search result \<^verbatim>\<open>totalPages === Math.ceil(total / pageSize)\<close> holds; and
  when the page of the result exceeds \<open>totalPages\<close>, the search answers (it has no
  failing path) with an empty item list and the total and page count it gives for the
  first page of the same query.
\<close>

theorem C8_total_pages:
  "strictEq (totalPages (search searchDto usr))
     (fceil (fdiv (shipmentSearchResult.total (search searchDto usr))
                  (shipmentSearchResult.pageSize (search searchDto usr))))
   \<and> (fgt (shipmentSearchResult.page (search searchDto usr)) (totalPages (search searchDto usr))
        \<longrightarrow> items (search searchDto usr) = []
          \<and> shipmentSearchResult.total (search searchDto usr)
              = shipmentSearchResult.total
                  (search (searchDto\<lparr>searchShipmentsDto.page := Some (Fin 1)\<rparr>) usr)
          \<and> totalPages (search searchDto usr)
              = totalPages (search (searchDto\<lparr>searchShipmentsDto.page := Some (Fin 1)\<rparr>) usr))"
proof -
  obtain s where
    "fdiv (Zero False) (orNumber (searchShipmentsDto.pageSize searchDto) (Fin 20)) = Zero s"
    using zero_div_truthy [OF orNumber_truthy] by blast
  then show ?thesis
    by (simp add: search_fields)
qed

theorem C8_witness:
  "fgt (shipmentSearchResult.page
          (search (emptyDto\<lparr>searchShipmentsDto.page := Some (Fin 3)\<rparr>) (userOfTier ''PRO'')))
       (totalPages
          (search (emptyDto\<lparr>searchShipmentsDto.page := Some (Fin 3)\<rparr>) (userOfTier ''PRO'')))
   \<and> items (search (emptyDto\<lparr>searchShipmentsDto.page := Some (Fin 3)\<rparr>) (userOfTier ''PRO''))
       = []
   \<and> totalPages (search (emptyDto\<lparr>searchShipmentsDto.page := Some (Fin 3)\<rparr>) (userOfTier ''PRO''))
       = Zero False"
  using C8_total_pages [of "emptyDto\<lparr>searchShipmentsDto.page := Some (Fin 3)\<rparr>"
      "userOfTier ''PRO''"]
  by (simp add: search_fields orNumber_def)

text \<open>
  C10, as stated, fails in one point: the aggregations of a search result hold five
  facet buckets (origin country, destination country, HS chapter, transport mode,
  carrier), not six.
\<close>

theorem C10_counterexample:
  "length (facetBuckets (aggregations (search emptyDto (userOfTier ''PRO'')))) = 5"
  by (simp add: facetBuckets_def)

text \<open>
  C10, amended. The shipment search is a constant function of its filters: for every
  search input and user it returns no items, total 0, 0 total pages, all five facet
  buckets empty and both range summaries \<^verbatim>\<open>{min: 0, max: 0, avg: 0}\<close>, and takes from the
  input only the page (default 1) and the page size (default 20). Two inputs that agree
  on the page and the page size get the same result, whatever their filters and users;
  so the facet-sum bound and the monotonicity under narrowing hold trivially.
\<close>

theorem C10_search_is_constant:
  "items (search searchDto usr) = []
   \<and> shipmentSearchResult.total (search searchDto usr) = Zero False
   \<and> totalPages (search searchDto usr) = Zero False
   \<and> facetBuckets (aggregations (search searchDto usr)) = [[], [], [], [], []]
   \<and> rangeSummaries (aggregations (search searchDto usr)) = [zeroRange, zeroRange]
   \<and> shipmentSearchResult.page (search searchDto usr)
       = orNumber (searchShipmentsDto.page searchDto) (Fin 1)
   \<and> shipmentSearchResult.pageSize (search searchDto usr)
       = orNumber (searchShipmentsDto.pageSize searchDto) (Fin 20)
   \<and> (searchShipmentsDto.page searchDto = searchShipmentsDto.page searchDto'
        \<and> searchShipmentsDto.pageSize searchDto = searchShipmentsDto.pageSize searchDto'
        \<longrightarrow> search searchDto usr = search searchDto' usr')"
  by (simp add: search_def facetBuckets_def rangeSummaries_def zeroRange_def)

theorem C10_witness:
  "searchShipmentsDto.page emptyDto = searchShipmentsDto.page filteredDto
   \<and> searchShipmentsDto.pageSize emptyDto = searchShipmentsDto.pageSize filteredDto
   \<and> emptyDto \<noteq> filteredDto
   \<and> search emptyDto (userOfTier ''STARTER'') = search filteredDto (userOfTier ''GOV'')
   \<and> shipmentSearchResult.page (search emptyDto (userOfTier ''STARTER'')) = Fin 1
   \<and> shipmentSearchResult.pageSize (search emptyDto (userOfTier ''STARTER'')) = Fin 20"
  using C10_search_is_constant [of emptyDto "userOfTier ''STARTER''" filteredDto
      "userOfTier ''GOV''"] filteredDto_differs
  by (simp add: emptyDto_paging filteredDto_paging orNumber_def search_fields)

end
